theory Spec2Isabelle
  imports Complex_Main "HOL-Library.Sublist"
begin

section \<open>Text\<close>

text \<open>
  A Python \<open>str\<close> is a sequence of code points. It is modelled as a HOL \<open>string\<close>
  in which every \<open>char\<close> stands for one code point of the range U+0000..U+00FF
  (not for one byte of an encoding), so \<open>length\<close> is Python's \<open>len\<close>.
  The character predicates below are Python's on that range.
\<close>

definition code_point :: "char \<Rightarrow> nat" where
  "code_point c = of_char c"

text \<open>The class \<open>[a-zA-Z0-9_]\<close> of the regular expressions in \<open>_clean_column_name\<close>.\<close>

definition is_word_char :: "char \<Rightarrow> bool" where
  "is_word_char c =
     (let n = code_point c in
        (97 \<le> n \<and> n \<le> 122) \<or> (65 \<le> n \<and> n \<le> 90) \<or> (48 \<le> n \<and> n \<le> 57) \<or> n = 95)"

text \<open>The regular expression class \<open>\d\<close> on text: the decimal digits, \<open>0\<close> to \<open>9\<close> in this range.\<close>

definition is_decimal_char :: "char \<Rightarrow> bool" where
  "is_decimal_char c = (let n = code_point c in 48 \<le> n \<and> n \<le> 57)"

text \<open>
  \<open>str.isdigit\<close> on one character: the decimal digits and the characters of numeric
  type Digit, which in this range are the superscripts U+00B2, U+00B3 and U+00B9.
\<close>

definition isdigit_char :: "char \<Rightarrow> bool" where
  "isdigit_char c =
     (let n = code_point c in (48 \<le> n \<and> n \<le> 57) \<or> n = 178 \<or> n = 179 \<or> n = 185)"

text \<open>\<open>str.isdigit\<close>: every character is a digit and there is at least one character.\<close>

definition isdigit :: "string \<Rightarrow> bool" where
  "isdigit s = (s \<noteq> [] \<and> list_all isdigit_char s)"

text \<open>The number that a text of decimal digits denotes.\<close>

definition digit_value :: "char \<Rightarrow> int" where
  "digit_value c = of_char c - 48"

definition digits_value :: "string \<Rightarrow> int" where
  "digits_value s = foldl (\<lambda>acc c. 10 * acc + digit_value c) 0 s"

section \<open>Name sanitizer: \<open>CSVConverter._clean_column_name\<close>\<close>

abbreviation underscore :: char where
  "underscore \<equiv> CHR ''_''"

text \<open>\<open>re.sub(r'[^a-zA-Z0-9_]', '_', s)\<close>: every character outside the class becomes an underscore.\<close>

definition replace_special :: "string \<Rightarrow> string" where
  "replace_special s = map (\<lambda>c. if is_word_char c then c else underscore) s"

text \<open>
  \<open>re.sub(r'_+', '_', s)\<close>: scanning from the left, every maximal run of underscores
  is one match and is replaced by a single underscore.
\<close>

function collapse_underscores :: "string \<Rightarrow> string" where
  "collapse_underscores [] = []"
| "collapse_underscores (c # cs) =
     (if c = underscore
      then underscore # collapse_underscores (dropWhile (\<lambda>d. d = underscore) cs)
      else c # collapse_underscores cs)"
  by pat_completeness auto
termination
  by (relation "measure length") (auto simp: less_Suc_eq_le length_dropWhile_le)

text \<open>\<open>s.strip('_')\<close>: the underscores at both ends are removed.\<close>

definition strip_underscores :: "string \<Rightarrow> string" where
  "strip_underscores s =
     rev (dropWhile (\<lambda>d. d = underscore) (rev (dropWhile (\<lambda>d. d = underscore) s)))"

text \<open>
  The whole function. \<open>clean_name and clean_name[0].isdigit()\<close> guards the prefix,
  \<open>clean_name or 'unnamed_column'\<close> replaces the empty result.
\<close>

definition clean_column_name :: "string \<Rightarrow> string" where
  "clean_column_name col_name =
     (let clean_name = replace_special col_name;
          clean_name = collapse_underscores clean_name;
          clean_name = strip_underscores clean_name;
          clean_name = (if clean_name \<noteq> [] \<and> isdigit [hd clean_name]
                        then ''col_'' @ clean_name else clean_name)
      in if clean_name = [] then ''unnamed_column'' else clean_name)"

subsection \<open>The sanitizer as the specification words it\<close>

text \<open>
  The five rules of the specification, each written from its words, to be compared
  with the function above.
\<close>

definition spec_replace :: "string \<Rightarrow> string" where
  "spec_replace s = map (\<lambda>c. if \<not> is_word_char c then underscore else c) s"

text \<open>An underscore that directly follows an underscore is dropped.\<close>

fun spec_collapse :: "string \<Rightarrow> string" where
  "spec_collapse (c # d # cs) =
     (if c = underscore \<and> d = underscore then spec_collapse (d # cs)
      else c # spec_collapse (d # cs))"
| "spec_collapse cs = cs"

fun spec_trim_left :: "string \<Rightarrow> string" where
  "spec_trim_left [] = []"
| "spec_trim_left (c # cs) = (if c = underscore then spec_trim_left cs else c # cs)"

definition spec_trim :: "string \<Rightarrow> string" where
  "spec_trim s = rev (spec_trim_left (rev (spec_trim_left s)))"

definition spec_prefix :: "string \<Rightarrow> string" where
  "spec_prefix s =
     (case s of [] \<Rightarrow> []
      | c # cs \<Rightarrow> if is_decimal_char c then ''col_'' @ s else s)"

definition spec_fallback :: "string \<Rightarrow> string" where
  "spec_fallback s = (if s = [] then ''unnamed_column'' else s)"

definition spec_sanitize :: "string \<Rightarrow> string" where
  "spec_sanitize name =
     spec_fallback (spec_prefix (spec_trim (spec_collapse (spec_replace name))))"

subsection \<open>Shapes of a sanitized name\<close>

text \<open>No two underscores in a row; no underscore at either end; both, over the word characters.\<close>

definition no_double :: "string \<Rightarrow> bool" where
  "no_double s = (\<not> sublist ''__'' s)"

definition trimmed :: "string \<Rightarrow> bool" where
  "trimmed s = (s = [] \<or> (hd s \<noteq> underscore \<and> last s \<noteq> underscore))"

definition clean :: "string \<Rightarrow> bool" where
  "clean s = (list_all is_word_char s \<and> no_double s \<and> trimmed s)"

section \<open>Type inferrer: \<open>DataTypeInferrer\<close>\<close>

text \<open>
  The SQL types \<open>infer_sql_type\<close> returns. \<open>DECIMAL\<close> stands for the string
  \<open>DECIMAL(10,2)\<close>, \<open>VARCHAR n\<close> for \<open>VARCHAR(n)\<close> and \<open>INT_sql\<close> for \<open>INT\<close>.
\<close>

datatype sql_type =
  TEXT | BOOLEAN | TINYINT | SMALLINT | INT_sql | BIGINT | DECIMAL | DATE | DATETIME | VARCHAR int

text \<open>
  A series is a column of text cells; a null cell is \<open>None\<close>. The two functions of the
  pandas library that the inferrer calls are parameters of the model:
  \<open>to_numeric\<close> is \<open>pd.to_numeric(errors='coerce')\<close>, cell by cell, giving the
  number a cell parses to or \<open>None\<close> where pandas gives NaN (the numbers are taken
  as rationals); \<open>to_datetime\<close> is \<open>pd.to_datetime(errors='coerce')\<close> on a whole
  series, telling for each cell whether it was parsed to a timestamp (\<open>False\<close>
  where pandas gives NaT).
\<close>

record pandas =
  to_numeric :: "string \<Rightarrow> rat option"
  to_datetime :: "string list \<Rightarrow> bool list"

type_synonym series = "string option list"

text \<open>\<open>Series.dropna\<close>.\<close>

definition dropna :: "'a option list \<Rightarrow> 'a list" where
  "dropna xs = List.map_filter (\<lambda>x. x) xs"

text \<open>\<open>str.lower\<close> on one character of the range.\<close>

definition lower_char :: "char \<Rightarrow> char" where
  "lower_char c =
     (let n = code_point c in
        if (65 \<le> n \<and> n \<le> 90) \<or> (192 \<le> n \<and> n \<le> 222 \<and> n \<noteq> 215)
        then char_of (n + 32) else c)"

definition lower :: "string \<Rightarrow> string" where
  "lower s = map lower_char s"

definition boolean_vals :: "string list" where
  "boolean_vals = [''true'', ''false'', ''1'', ''0'', ''yes'', ''no'', ''y'', ''n'']"

text \<open>\<open>_is_boolean\<close>: the lowered values all lie in the token set.\<close>

definition is_boolean :: "string list \<Rightarrow> bool" where
  "is_boolean series = list_all (\<lambda>v. lower v \<in> set boolean_vals) series"

text \<open>\<open>float(x).is_integer()\<close>.\<close>

definition is_integer_value :: "rat \<Rightarrow> bool" where
  "is_integer_value x = (of_int \<lfloor>x\<rfloor> = x)"

text \<open>
  \<open>_is_integer\<close>: the cells are coerced to numbers, the cells that do not parse are
  dropped, and the rest must be non-empty and integral.
\<close>

definition is_integer :: "pandas \<Rightarrow> string list \<Rightarrow> bool" where
  "is_integer lib series =
     (let numeric_series = dropna (map (to_numeric lib) series)
      in if numeric_series = [] then False
         else list_all is_integer_value numeric_series)"

definition is_float :: "pandas \<Rightarrow> string list \<Rightarrow> bool" where
  "is_float lib series =
     (let numeric_series = dropna (map (to_numeric lib) series)
      in if numeric_series = [] then False
         else \<not> list_all is_integer_value numeric_series)"

text \<open>
  The regular expressions of the date checks, matched as \<open>re.match\<close> does: from the
  start of the text, with anything allowed after the match. \<open>Digit\<close> is \<open>\d\<close>,
  \<open>Lit c\<close> the character itself, \<open>Spaces\<close> is \<open>\s+\<close> and \<open>MoreSpaces\<close>
  the rest of its run.
\<close>

datatype token = Digit | Lit char | Spaces | MoreSpaces

definition is_space_char :: "char \<Rightarrow> bool" where
  "is_space_char c =
     (let n = code_point c in
        (9 \<le> n \<and> n \<le> 13) \<or> (28 \<le> n \<and> n \<le> 32) \<or> n = 133 \<or> n = 160)"

fun re_match :: "token list \<Rightarrow> string \<Rightarrow> bool" where
  "re_match [] s = True"
| "re_match (MoreSpaces # ts) [] = re_match ts []"
| "re_match (t # ts) [] = False"
| "re_match (Digit # ts) (c # cs) = (is_decimal_char c \<and> re_match ts cs)"
| "re_match (Lit a # ts) (c # cs) = (c = a \<and> re_match ts cs)"
| "re_match (Spaces # ts) (c # cs) = (is_space_char c \<and> re_match (MoreSpaces # ts) cs)"
| "re_match (MoreSpaces # ts) (c # cs) =
     (if is_space_char c then re_match (MoreSpaces # ts) cs else re_match ts (c # cs))"

definition dash :: token where "dash = Lit (CHR ''-'')"
definition slash :: token where "slash = Lit (CHR ''/'')"
definition colon :: token where "colon = Lit (CHR '':'')"

definition date_patterns :: "token list list" where
  "date_patterns =
     [[Digit, Digit, Digit, Digit, dash, Digit, Digit, dash, Digit, Digit],
      [Digit, Digit, slash, Digit, Digit, slash, Digit, Digit, Digit, Digit],
      [Digit, Digit, dash, Digit, Digit, dash, Digit, Digit, Digit, Digit],
      [Digit, Digit, Digit, Digit, slash, Digit, Digit, slash, Digit, Digit]]"

definition time_of_day :: "token list" where
  "time_of_day = [Spaces, Digit, Digit, colon, Digit, Digit, colon, Digit, Digit]"

definition datetime_patterns :: "token list list" where
  "datetime_patterns =
     [[Digit, Digit, Digit, Digit, dash, Digit, Digit, dash, Digit, Digit] @ time_of_day,
      [Digit, Digit, slash, Digit, Digit, slash, Digit, Digit, Digit, Digit] @ time_of_day]"

text \<open>
  \<open>_is_date\<close>: the first cell is the sample; at the first pattern it matches, the first
  ten cells are parsed and the answer is that not all of them failed. An empty series
  raises at \<open>iloc[0]\<close>, which the \<open>except\<close> turns into \<open>False\<close>.
\<close>

definition is_date :: "pandas \<Rightarrow> string list \<Rightarrow> bool" where
  "is_date lib series =
     (case series of [] \<Rightarrow> False
      | sample_str # _ \<Rightarrow>
          if list_ex (\<lambda>pattern. re_match pattern sample_str) date_patterns
          then (let parsed = to_datetime lib (take 10 series)
                in \<not> list_all (\<lambda>is_parsed. \<not> is_parsed) parsed)
          else False)"

definition is_datetime :: "pandas \<Rightarrow> string list \<Rightarrow> bool" where
  "is_datetime lib series =
     (case series of [] \<Rightarrow> False
      | sample_str # _ \<Rightarrow>
          if list_ex (\<lambda>pattern. re_match pattern sample_str) datetime_patterns
          then (let parsed = to_datetime lib (take 10 series)
                in \<not> list_all (\<lambda>is_parsed. \<not> is_parsed) parsed)
          else False)"

text \<open>
  \<open>int(max_length * 1.2)\<close>: the product is a float and \<open>int\<close> truncates it. For a
  length \<open>n\<close> below \<open>10^15\<close> the float product truncates to the same integer as
  the exact \<open>6 * n / 5\<close> (the nearest double to \<open>1.2\<close> is below it by less than
  one part in \<open>10^16\<close>, and a product that is a whole number exactly rounds to that
  number); the model takes the exact value.
\<close>

definition scaled_length :: "int \<Rightarrow> int" where
  "scaled_length max_length = (6 * max_length) div 5"

text \<open>
  \<open>infer_sql_type\<close>, first match wins. The minimum and maximum are taken over the
  cells that parsed (\<open>max\<close> and \<open>min\<close> skip NaN).
\<close>

definition infer_sql_type :: "pandas \<Rightarrow> series \<Rightarrow> int \<Rightarrow> sql_type" where
  "infer_sql_type lib series max_varchar_length =
     (let non_null_series = dropna series in
      if length non_null_series = 0 then TEXT
      else if is_boolean non_null_series then BOOLEAN
      else if is_integer lib non_null_series then
        (let numeric_series = dropna (map (to_numeric lib) non_null_series);
             max_val = Max (set numeric_series);
             min_val = Min (set numeric_series)
         in if min_val \<ge> -128 \<and> max_val \<le> 127 then TINYINT
            else if min_val \<ge> -32768 \<and> max_val \<le> 32767 then SMALLINT
            else if min_val \<ge> -2147483648 \<and> max_val \<le> 2147483647 then INT_sql
            else BIGINT)
      else if is_float lib non_null_series then DECIMAL
      else if is_date lib non_null_series then DATE
      else if is_datetime lib non_null_series then DATETIME
      else
        (let max_length = Max (set (map (\<lambda>v. int (length v)) non_null_series))
         in if max_length > max_varchar_length then TEXT
            else VARCHAR (min (scaled_length max_length) max_varchar_length)))"

subsection \<open>Vocabulary of the inferrer's properties\<close>

definition is_numeric_type :: "sql_type \<Rightarrow> bool" where
  "is_numeric_type t = (t = TINYINT \<or> t = SMALLINT \<or> t = INT_sql \<or> t = BIGINT \<or> t = DECIMAL)"

text \<open>A cell parses as a number; a cell parses as an integer.\<close>

definition parses_as_number :: "pandas \<Rightarrow> string \<Rightarrow> bool" where
  "parses_as_number lib v = (to_numeric lib v \<noteq> None)"

definition parses_as_integer :: "pandas \<Rightarrow> string \<Rightarrow> bool" where
  "parses_as_integer lib v =
     (case to_numeric lib v of None \<Rightarrow> False | Some q \<Rightarrow> is_integer_value q)"

text \<open>Every cell that parses lies between the two bounds.\<close>

definition all_within :: "pandas \<Rightarrow> string list \<Rightarrow> rat \<Rightarrow> rat \<Rightarrow> bool" where
  "all_within lib vs lo hi =
     list_all (\<lambda>v. case to_numeric lib v of None \<Rightarrow> True | Some q \<Rightarrow> lo \<le> q \<and> q \<le> hi) vs"

definition narrowest_integer_type :: "pandas \<Rightarrow> string list \<Rightarrow> sql_type" where
  "narrowest_integer_type lib vs =
     (if all_within lib vs (-128) 127 then TINYINT
      else if all_within lib vs (-32768) 32767 then SMALLINT
      else if all_within lib vs (-2147483648) 2147483647 then INT_sql
      else BIGINT)"

text \<open>The length the specification words: \<open>min(round(max_observed_length * 1.2), max_varchar_length)\<close>.\<close>

definition spec_varchar_length :: "int \<Rightarrow> int \<Rightarrow> int" where
  "spec_varchar_length max_length max_varchar_length =
     min (round (of_int max_length * (12 / 10) :: rat)) max_varchar_length"

definition max_observed_length :: "string list \<Rightarrow> int" where
  "max_observed_length vs = Max (set (map (\<lambda>v. int (length v)) vs))"

subsection \<open>A library instance for evaluation\<close>

text \<open>
  A small parser standing for pandas on the columns evaluated below: it reads plain
  decimal numerals (an optional minus sign, digits, an optional fraction) and calendar
  dates written \<open>YYYY-MM-DD\<close> within the years pandas' timestamps cover, and
  rejects every other cell.
\<close>

definition parse_unsigned :: "string \<Rightarrow> rat option" where
  "parse_unsigned s =
     (let ip = takeWhile is_decimal_char s; rest = dropWhile is_decimal_char s
      in if ip = [] then None
         else (case rest of [] \<Rightarrow> Some (of_int (digits_value ip))
               | c # fp \<Rightarrow>
                   if c = CHR ''.'' \<and> fp \<noteq> [] \<and> list_all is_decimal_char fp
                   then Some (of_int (digits_value (ip @ fp)) / 10 ^ length fp)
                   else None))"

definition parse_number :: "string \<Rightarrow> rat option" where
  "parse_number s =
     (case s of [] \<Rightarrow> None
      | c # cs \<Rightarrow> if c = CHR ''-'' then map_option uminus (parse_unsigned cs)
                  else parse_unsigned s)"

definition days_in_month :: "int \<Rightarrow> int \<Rightarrow> int" where
  "days_in_month y m =
     (if m = 2 then (if y mod 4 = 0 \<and> (y mod 100 \<noteq> 0 \<or> y mod 400 = 0) then 29 else 28)
      else if m = 4 \<or> m = 6 \<or> m = 9 \<or> m = 11 then 30 else 31)"

definition parse_iso_date :: "string \<Rightarrow> bool" where
  "parse_iso_date s =
     (length s = 10 \<and> re_match (hd date_patterns) s \<and>
      (let y = digits_value (take 4 s); m = digits_value (take 2 (drop 5 s));
           d = digits_value (take 2 (drop 8 s))
       in 1678 \<le> y \<and> y \<le> 2261 \<and> 1 \<le> m \<and> m \<le> 12 \<and> 1 \<le> d \<and> d \<le> days_in_month y m))"

definition plain_lib :: pandas where
  "plain_lib = \<lparr>to_numeric = parse_number, to_datetime = map parse_iso_date\<rparr>"

section \<open>The minimal implementation: \<open>convert_to_sql.py\<close>\<close>

subsection \<open>Row extraction: \<open>csv_data\<close>\<close>

text \<open>
  The Python values that occur in rows: \<open>csv_data\<close> produces \<open>int\<close> and \<open>str\<close>;
  the database cursor may also return floats and decimals (\<open>RealV\<close>, by their value)
  and \<open>None\<close>.
\<close>

datatype pyval = IntV int | StrV string | RealV rat | NoneV

datatype error =
  FileNotFoundError | UnicodeDecodeError | CsvError | ValueError | IndexError | ParserError

text \<open>
  Python's \<open>int\<close> on a text that passes \<open>isdigit\<close>: such a text holds decimal digits
  and superscript digits only. \<open>int\<close> reads a text of decimal digits, of at most 4300
  digits (the default limit of the interpreter, leading zeros counted), and raises
  \<open>ValueError\<close> at a superscript digit and beyond the limit.
\<close>

definition int_max_str_digits :: int where
  "int_max_str_digits = 4300"

definition python_int :: "string \<Rightarrow> error + int" where
  "python_int s =
     (if s \<noteq> [] \<and> list_all is_decimal_char s \<and> int (length s) \<le> int_max_str_digits
      then Inr (digits_value s) else Inl ValueError)"

text \<open>The body of the inner loop of \<open>csv_data\<close>: the value appended for one field.\<close>

definition format_value :: "string \<Rightarrow> error + pyval" where
  "format_value v =
     (if isdigit v
      then (case python_int v of Inl e \<Rightarrow> Inl e | Inr n \<Rightarrow> Inr (IntV n))
      else Inr (StrV v))"

text \<open>The inner loop, field by field from the left; the first exception ends it.\<close>

fun format_row :: "string list \<Rightarrow> error + pyval list" where
  "format_row [] = Inr []"
| "format_row (v # vs) =
     (case format_value v of
        Inl e \<Rightarrow> Inl e
      | Inr formatted \<Rightarrow>
          (case format_row vs of
             Inl e \<Rightarrow> Inl e
           | Inr formatted_row \<Rightarrow> Inr (formatted # formatted_row)))"

text \<open>The outer loop, row by row.\<close>

fun format_rows :: "string list list \<Rightarrow> error + pyval list list" where
  "format_rows [] = Inr []"
| "format_rows (i # rest) =
     (case format_row i of
        Inl e \<Rightarrow> Inl e
      | Inr formatted_row \<Rightarrow>
          (case format_rows rest of
             Inl e \<Rightarrow> Inl e
           | Inr formatted_data \<Rightarrow> Inr (formatted_row # formatted_data)))"

text \<open>
  The platform under both implementations is a parameter, seen through a path.
  \<open>path_exists\<close> tells whether there is a file at the path (an existing path is
  taken to be a readable file) and \<open>decodable\<close> whether the bytes of that file are
  valid UTF-8. \<open>reader_rows\<close> gives the rows that \<open>csv.reader\<close> yields from the
  file before it stops: all rows of the file when it reaches the end, fewer when it
  stops at an exception. \<open>reader_raises\<close> tells whether it stops at a \<open>csv.Error\<close>
  (a field longer than the limit of 131072 characters) before the end of the file
  and before any bytes that are not UTF-8; otherwise it stops at such bytes with
  \<open>UnicodeDecodeError\<close>, or at the end of a decodable file. \<open>parsed_columns\<close> is
  what \<open>pd.read_csv\<close> makes of a decodable file: its columns in order, each a
  header and its cells, or \<open>None\<close> when pandas raises on its content.
\<close>

record platform =
  path_exists :: "string \<Rightarrow> bool"
  decodable :: "string \<Rightarrow> bool"
  reader_rows :: "string \<Rightarrow> string list list"
  reader_raises :: "string \<Rightarrow> bool"
  parsed_columns :: "string \<Rightarrow> (string \<times> series) list option"

text \<open>
  \<open>csv_data\<close>: \<open>open\<close> raises \<open>FileNotFoundError\<close> for a missing path (the encoding
  name \<open>utf - 8\<close> is normalised to UTF-8). Each row is formatted when the reader has
  yielded it, before the next one is read, so an exception of the formatting comes
  before the exception that stops the reader. Nothing catches an exception: the
  caller receives it.
\<close>

definition csv_data :: "platform \<Rightarrow> string \<Rightarrow> error + pyval list list" where
  "csv_data os file_path =
     (if \<not> path_exists os file_path then Inl FileNotFoundError
      else
        (case format_rows (reader_rows os file_path) of
           Inl e \<Rightarrow> Inl e
         | Inr formatted_data \<Rightarrow>
             if reader_raises os file_path then Inl CsvError
             else if decodable os file_path then Inr formatted_data
             else Inl UnicodeDecodeError))"


subsection \<open>Merge into an existing table: \<open>newchanges_existingtable_table\<close>\<close>

text \<open>
  Python's \<open>==\<close> on these values: numbers are compared by value, whatever their type;
  a text equals only the same text.
\<close>

fun py_eq :: "pyval \<Rightarrow> pyval \<Rightarrow> bool" where
  "py_eq (IntV a) (IntV b) = (a = b)"
| "py_eq (IntV a) (RealV q) = (of_int a = q)"
| "py_eq (RealV q) (IntV a) = (q = of_int a)"
| "py_eq (RealV p) (RealV q) = (p = q)"
| "py_eq (StrV s) (StrV t) = (s = t)"
| "py_eq NoneV NoneV = True"
| "py_eq _ _ = False"

text \<open>Equality of two lists: the same length and equal items, position by position.\<close>

definition row_eq :: "pyval list \<Rightarrow> pyval list \<Rightarrow> bool" where
  "row_eq row other = list_all2 py_eq row other"

text \<open>\<open>row in existing_data\<close>.\<close>

definition row_in :: "pyval list \<Rightarrow> pyval list list \<Rightarrow> bool" where
  "row_in row existing_data = list_ex (row_eq row) existing_data"

text \<open>The loop that collects \<open>new_data_to_insert\<close>.\<close>

fun new_data_loop :: "pyval list list \<Rightarrow> pyval list list \<Rightarrow> pyval list list \<Rightarrow> pyval list list" where
  "new_data_loop existing_data [] new_data_to_insert = new_data_to_insert"
| "new_data_loop existing_data (row # rows) new_data_to_insert =
     new_data_loop existing_data rows
       (if \<not> row_in row existing_data then new_data_to_insert @ [row] else new_data_to_insert)"

text \<open>
  What the cursor is asked to do: insert the values of a row, or commit. A statement
  is recorded by the row it inserts; the SQL text built from the row is left to the
  database side.
\<close>

datatype statement = Insert "pyval list" | Commit

fun insert_loop :: "pyval list list \<Rightarrow> statement list \<Rightarrow> statement list" where
  "insert_loop [] executed = executed"
| "insert_loop (row # rows) executed = insert_loop rows (executed @ [Insert row])"

text \<open>
  The function after its two reads: \<open>existing_data\<close> is the snapshot of the table,
  \<open>csv_data_list\<close> the result of \<open>csv_data\<close>, whose first row is the header. The
  result is the sequence of statements executed.
\<close>

definition merge_rows :: "pyval list list \<Rightarrow> pyval list list \<Rightarrow> statement list" where
  "merge_rows existing_data csv_data_list =
     (let new_data_to_insert = new_data_loop existing_data (drop 1 csv_data_list) []
      in if new_data_to_insert \<noteq> []
         then insert_loop new_data_to_insert [] @ [Commit]
         else [])"

definition newchanges_existingtable_table ::
  "platform \<Rightarrow> pyval list list \<Rightarrow> string \<Rightarrow> error + statement list" where
  "newchanges_existingtable_table os existing_data file_path =
     (case csv_data os file_path of
        Inl e \<Rightarrow> Inl e
      | Inr csv_data_list \<Rightarrow> Inr (merge_rows existing_data csv_data_list))"

text \<open>
  The rows merge mode is specified to insert: the incoming rows whose tuple of values
  does not occur in the snapshot. The value of a cell is a number, whatever Python
  type carries it, a text, or null; two rows are the same when their tuples of
  values are the same tuple.
\<close>

datatype cell_value = Number_value rat | Text_value string | Null_value

fun value_of :: "pyval \<Rightarrow> cell_value" where
  "value_of (IntV n) = Number_value (of_int n)"
| "value_of (RealV q) = Number_value q"
| "value_of (StrV s) = Text_value s"
| "value_of NoneV = Null_value"

definition value_tuple :: "pyval list \<Rightarrow> cell_value list" where
  "value_tuple row = map value_of row"

definition spec_new_rows :: "pyval list list \<Rightarrow> pyval list list \<Rightarrow> pyval list list" where
  "spec_new_rows existing_row_snapshot incoming_rows =
     filter (\<lambda>row. value_tuple row \<notin> set (map value_tuple existing_row_snapshot)) incoming_rows"

subsection \<open>Column types: the first part of \<open>create_table\<close>\<close>

text \<open>\<open>str.isalpha\<close> and \<open>str.isnumeric\<close> on one character of the range.\<close>

definition isalpha_char :: "char \<Rightarrow> bool" where
  "isalpha_char c =
     (let n = code_point c in
        (65 \<le> n \<and> n \<le> 90) \<or> (97 \<le> n \<and> n \<le> 122) \<or> n = 170 \<or> n = 181 \<or> n = 186 \<or>
        (192 \<le> n \<and> n \<le> 214) \<or> (216 \<le> n \<and> n \<le> 246) \<or> (248 \<le> n \<and> n \<le> 255))"

definition isalpha :: "string \<Rightarrow> bool" where
  "isalpha s = (s \<noteq> [] \<and> list_all isalpha_char s)"

definition isnumeric_char :: "char \<Rightarrow> bool" where
  "isnumeric_char c = (let n = code_point c in isdigit_char c \<or> (188 \<le> n \<and> n \<le> 190))"

text \<open>The class \<open>\w\<close> on text: alphanumeric characters and the underscore.\<close>

definition is_alnum_char :: "char \<Rightarrow> bool" where
  "is_alnum_char c = (isalpha_char c \<or> isnumeric_char c \<or> c = CHR ''_'')"

text \<open>
  \<open>match(date_pattern, i)\<close> with the pattern \<open>\b\d{4}-\d{2}-\d{2}\b\<close>: the first
  boundary holds before a digit at the start; the second holds when the text ends
  after the tenth character or goes on with a character outside \<open>\w\<close>.
\<close>

definition match_date_pattern :: "string \<Rightarrow> bool" where
  "match_date_pattern i =
     (re_match (hd date_patterns) i \<and>
      (case drop 10 i of [] \<Rightarrow> True | c # _ \<Rightarrow> \<not> is_alnum_char c))"

text \<open>
  The test \<open>elif i.isnumeric:\<close> names the method and does not call it; a method
  object is true.
\<close>

definition isnumeric_method :: "string \<Rightarrow> bool" where
  "isnumeric_method i = True"

text \<open>The body of the loop over the second row: the type appended for a field, if any.\<close>

definition data_type_of :: "string \<Rightarrow> string option" where
  "data_type_of i =
     (if isalpha i then Some ''varchar(255)''
      else if isdigit i then Some ''int(11)''
      else if isnumeric_method i then (if CHR ''.'' \<in> set i then Some ''float'' else None)
      else if match_date_pattern i then Some ''date''
      else Some ''str'')"

fun data_types_loop :: "string list \<Rightarrow> string list \<Rightarrow> string list" where
  "data_types_loop [] data_types = data_types"
| "data_types_loop (i # rest) data_types =
     data_types_loop rest
       (case data_type_of i of None \<Rightarrow> data_types | Some t \<Rightarrow> data_types @ [t])"

definition data_types :: "string list \<Rightarrow> string list" where
  "data_types second_row_data = data_types_loop second_row_data []"

text \<open>A subscript \<open>xs[i]\<close> raises \<open>IndexError\<close> out of range.\<close>

definition subscript :: "'a list \<Rightarrow> nat \<Rightarrow> error + 'a" where
  "subscript xs i = (if i < length xs then Inr (xs ! i) else Inl IndexError)"

text \<open>
  The columns \<open>create_table\<close> defines for a new table, each a header field and its
  type: the first in the \<open>create table\<close> statement, the others one by one in
  \<open>alter table\<close> statements for \<open>i\<close> in \<open>range(1, no_of_cols)\<close>.
\<close>

fun alter_loop :: "string list \<Rightarrow> string list \<Rightarrow> nat list \<Rightarrow> error + (string \<times> string) list" where
  "alter_loop first_row_data dts [] = Inr []"
| "alter_loop first_row_data dts (i # rest) =
     (case subscript first_row_data i of
        Inl e \<Rightarrow> Inl e
      | Inr name \<Rightarrow>
          (case subscript dts i of
             Inl e \<Rightarrow> Inl e
           | Inr t \<Rightarrow>
               (case alter_loop first_row_data dts rest of
                  Inl e \<Rightarrow> Inl e
                | Inr cols \<Rightarrow> Inr ((name, t) # cols))))"

definition create_table_columns :: "string list \<Rightarrow> string list \<Rightarrow> error + (string \<times> string) list" where
  "create_table_columns first_row_data second_row_data =
     (let dts = data_types second_row_data in
      case subscript first_row_data 0 of
        Inl e \<Rightarrow> Inl e
      | Inr name \<Rightarrow>
          (case subscript dts 0 of
             Inl e \<Rightarrow> Inl e
           | Inr t \<Rightarrow>
               (let no_of_cols = length first_row_data in
                case alter_loop first_row_data dts [1..<no_of_cols] of
                  Inl e \<Rightarrow> Inl e
                | Inr cols \<Rightarrow> Inr ((name, t) # cols))))"

section \<open>Analysis of a file: \<open>CSVConverter.analyze_csv\<close>\<close>

record column_analysis =
  original_name :: string
  clean_name :: string
  sql_type :: sql_type






subsection \<open>A platform instance for evaluation\<close>


section \<open>Properties of the name sanitizer\<close>


lemma isdigit_char_word: "is_word_char c \<Longrightarrow> isdigit_char c \<longleftrightarrow> is_decimal_char c"
  by (auto simp: is_word_char_def isdigit_char_def is_decimal_char_def Let_def)

lemma spec_replace_eq: "spec_replace s = replace_special s"
  unfolding spec_replace_def replace_special_def by (rule map_cong) auto

lemma spec_trim_left_eq: "spec_trim_left s = dropWhile (\<lambda>d. d = underscore) s"
  by (induction s) auto

lemma spec_trim_eq: "spec_trim s = strip_underscores s"
  by (simp add: spec_trim_def strip_underscores_def spec_trim_left_eq)

lemma spec_collapse_eq: "spec_collapse s = collapse_underscores s"
proof (induction s rule: spec_collapse.induct)
  case (1 c d cs)
  then show ?case by (cases "d = underscore") auto
qed auto

lemma set_strip: "set (strip_underscores s) \<subseteq> set s"
  by (auto simp: strip_underscores_def dest!: set_dropWhileD)

lemma word_chars_replace: "list_all is_word_char (replace_special s)"
  by (induction s) (auto simp: replace_special_def is_word_char_def code_point_def)

lemma replace_fix: "list_all is_word_char s \<Longrightarrow> replace_special s = s"
  by (induction s) (auto simp: replace_special_def)

lemma spec_collapse_Cons: "spec_collapse (d # cs) = d # tl (spec_collapse (d # cs))"
proof (induction cs arbitrary: d)
  case Nil
  show ?case by simp
next
  case (Cons e es)
  show ?case
  proof (cases "d = underscore \<and> e = underscore")
    case True
    then have "spec_collapse (d # e # es) = spec_collapse (e # es)" by simp
    also have "\<dots> = e # tl (spec_collapse (e # es))" by (rule Cons.IH)
    finally show ?thesis using True by simp
  next
    case False
    then show ?thesis by auto
  qed
qed

lemma set_spec_collapse: "set (spec_collapse s) \<subseteq> set s"
  by (induction s rule: spec_collapse.induct) auto

lemma no_double_Cons2:
  "no_double (c # d # cs) \<longleftrightarrow> \<not> (c = underscore \<and> d = underscore) \<and> no_double (d # cs)"
  by (auto simp: no_double_def sublist_Cons_right)

lemma no_double_short: "no_double []" "no_double [c]"
  by (simp_all add: no_double_def sublist_Cons_right)

lemma no_double_spec_collapse: "no_double (spec_collapse s)"
proof (induction s rule: spec_collapse.induct)
  case (1 c d cs)
  show ?case
  proof (cases "c = underscore \<and> d = underscore")
    case True
    with 1(1) show ?thesis by simp
  next
    case False
    obtain ys where ys: "spec_collapse (d # cs) = d # ys"
      using spec_collapse_Cons[of d cs] by blast
    have "no_double (d # ys)" using 1(2)[OF False] ys by simp
    with False have "no_double (c # d # ys)" by (simp only: no_double_Cons2 simp_thms)
    moreover have "spec_collapse (c # d # cs) = c # spec_collapse (d # cs)"
      by (simp only: spec_collapse.simps(1) False if_False)
    ultimately show ?thesis by (simp only: ys)
  qed
qed (simp_all add: no_double_short)

lemma spec_collapse_fix: "no_double s \<Longrightarrow> spec_collapse s = s"
proof (induction s rule: spec_collapse.induct)
  case (1 c d cs)
  from 1(3) have nb: "\<not> (c = underscore \<and> d = underscore)" and nd: "no_double (d # cs)"
    by (simp_all only: no_double_Cons2 simp_thms)
  have "spec_collapse (c # d # cs) = c # spec_collapse (d # cs)"
    by (simp only: spec_collapse.simps(1) nb if_False)
  with 1(2)[OF nb nd] show ?case by simp
qed simp_all

lemma set_collapse: "set (collapse_underscores s) \<subseteq> set s"
  by (simp only: spec_collapse_eq[symmetric] set_spec_collapse)

lemma no_double_collapse: "no_double (collapse_underscores s)"
  by (simp only: spec_collapse_eq[symmetric] no_double_spec_collapse)

lemma collapse_fix: "no_double s \<Longrightarrow> collapse_underscores s = s"
  by (simp only: spec_collapse_eq[symmetric] spec_collapse_fix)

lemma no_double_strip: "no_double s \<Longrightarrow> no_double (strip_underscores s)"
proof -
  have "sublist (strip_underscores s) s"
    unfolding strip_underscores_def
    by (metis sublist_rev suffix_dropWhile suffix_imp_sublist sublist_order.order_trans rev_rev_ident)
  then show "no_double s \<Longrightarrow> no_double (strip_underscores s)"
    unfolding no_double_def using sublist_order.order_trans by blast
qed

lemma strip_fix: "trimmed s \<Longrightarrow> strip_underscores s = s"
proof (cases "s = []")
  case True
  then show ?thesis by (simp add: strip_underscores_def)
next
  case False
  assume "trimmed s"
  with False have h: "hd s \<noteq> underscore" and l: "last s \<noteq> underscore"
    by (auto simp: trimmed_def)
  from False h have a: "dropWhile (\<lambda>d. d = underscore) s = s"
    by (cases s) auto
  from False l have "hd (rev s) \<noteq> underscore" by (simp add: hd_rev)
  with False have "dropWhile (\<lambda>d. d = underscore) (rev s) = rev s"
    by (cases "rev s") auto
  with a show ?thesis by (simp add: strip_underscores_def)
qed

lemma trimmed_strip: "trimmed (strip_underscores s)"
proof -
  let ?p = "\<lambda>d. d = underscore"
  let ?t = "dropWhile ?p s"
  let ?u = "dropWhile ?p (rev ?t)"
  show ?thesis
  proof (cases "?u = []")
    case True
    show ?thesis unfolding strip_underscores_def True by (simp add: trimmed_def)
  next
    case False
    have tne: "?t \<noteq> []"
    proof
      assume e: "?t = []"
      have "?u = []" unfolding e by simp
      with False show False by (rule notE)
    qed
    have a: "hd ?u \<noteq> underscore" using hd_dropWhile[OF False] by simp
    have "suffix ?u (rev ?t)" by (rule suffix_dropWhile)
    then obtain zs where "rev ?t = zs @ ?u" by (auto simp: suffix_def)
    with False have "last ?u = last (rev ?t)" by (metis last_appendR)
    also have "\<dots> = hd ?t" using tne by (simp add: last_rev)
    finally have b: "last ?u \<noteq> underscore" using hd_dropWhile[OF tne] by simp
    from a b False show ?thesis
      by (simp add: trimmed_def strip_underscores_def hd_rev last_rev)
  qed
qed

lemma clean_stages: "clean (strip_underscores (collapse_underscores (replace_special s)))"
proof -
  have "list_all is_word_char (strip_underscores (collapse_underscores (replace_special s)))"
    using word_chars_replace[of s] set_collapse set_strip
    unfolding list_all_iff by blast
  then show ?thesis
    by (simp add: clean_def no_double_strip no_double_collapse trimmed_strip)
qed

lemma stages_fix: "clean s \<Longrightarrow> strip_underscores (collapse_underscores (replace_special s)) = s"
  by (simp add: clean_def replace_fix collapse_fix strip_fix)

lemma clean_col_prefix:
  assumes "clean s" "s \<noteq> []" "isdigit_char (hd s)"
  shows "clean (''col_'' @ s)"
proof -
  obtain c cs where s: "s = c # cs" using assms(2) by (cases s) auto
  have c: "c \<noteq> underscore" using assms(3) s by (auto simp: isdigit_char_def code_point_def)
  have w: "list_all is_word_char (''col_'' @ s)"
    using assms(1) by (simp add: clean_def is_word_char_def code_point_def)
  have nd: "no_double (''col_'' @ s)"
    using assms(1) c s by (simp add: clean_def no_double_def sublist_Cons_right)
  have t: "trimmed (''col_'' @ s)"
    using assms(1) s by (auto simp: clean_def trimmed_def)
  from w nd t show ?thesis by (simp add: clean_def)
qed

lemma clean_unnamed: "clean ''unnamed_column''"
  by (simp add: clean_def is_word_char_def code_point_def no_double_def sublist_Cons_right trimmed_def)

lemma clean_column_name_fix:
  assumes "clean s" "s \<noteq> []" "\<not> isdigit_char (hd s)"
  shows "clean_column_name s = s"
  using assms by (simp add: clean_column_name_def Let_def stages_fix isdigit_def)

lemma clean_column_name_twice: "clean_column_name (clean_column_name name) = clean_column_name name"
proof -
  let ?s = "strip_underscores (collapse_underscores (replace_special name))"
  have cl: "clean ?s" by (rule clean_stages)
  show ?thesis
  proof (cases "?s = []")
    case True
    then have "clean_column_name name = ''unnamed_column''"
      by (simp add: clean_column_name_def Let_def)
    moreover have "clean_column_name ''unnamed_column'' = ''unnamed_column''"
      by (rule clean_column_name_fix[OF clean_unnamed]) (simp_all add: isdigit_char_def code_point_def)
    ultimately show ?thesis by simp
  next
    case False
    show ?thesis
    proof (cases "isdigit_char (hd ?s)")
      case True
      with False have r: "clean_column_name name = ''col_'' @ ?s"
        by (simp add: clean_column_name_def Let_def isdigit_def)
      have "clean_column_name (''col_'' @ ?s) = ''col_'' @ ?s"
        by (rule clean_column_name_fix[OF clean_col_prefix[OF cl False True]])
           (simp_all add: isdigit_char_def code_point_def)
      with r show ?thesis by simp
    next
      case d: False
      with False have r: "clean_column_name name = ?s"
        by (simp add: clean_column_name_def Let_def isdigit_def)
      from clean_column_name_fix[OF cl False d] r show ?thesis by simp
    qed
  qed
qed

lemma sanitize_refines: "clean_column_name name = spec_sanitize name"
proof -
  let ?s = "strip_underscores (collapse_underscores (replace_special name))"
  have w: "?s \<noteq> [] \<Longrightarrow> is_word_char (hd ?s)"
    using clean_stages[of name] by (cases ?s) (auto simp: clean_def)
  show ?thesis
    using w isdigit_char_word[of "hd ?s"]
    by (cases ?s)
       (auto simp: clean_column_name_def spec_sanitize_def Let_def spec_replace_eq
          spec_collapse_eq spec_trim_eq spec_prefix_def spec_fallback_def isdigit_def)
qed

lemma sanitize_example: "clean_column_name ''2023 Revenue (USD)'' = ''col_2023_Revenue_USD''"
proof -
  have a: "replace_special ''2023 Revenue (USD)'' = ''2023_Revenue__USD_''"
    by (simp add: replace_special_def is_word_char_def code_point_def)
  have b: "collapse_underscores ''2023_Revenue__USD_'' = ''2023_Revenue_USD_''"
    by simp
  have c: "strip_underscores ''2023_Revenue_USD_'' = ''2023_Revenue_USD''"
    by (simp add: strip_underscores_def)
  have d: "isdigit [hd ''2023_Revenue_USD'']"
    by (simp add: isdigit_def isdigit_char_def code_point_def)
  have e: "clean_column_name ''2023 Revenue (USD)'' =
      (if ''2023_Revenue_USD'' \<noteq> [] \<and> isdigit [hd ''2023_Revenue_USD'']
       then ''col_'' @ ''2023_Revenue_USD'' else ''2023_Revenue_USD'')"
    unfolding clean_column_name_def Let_def a b c by simp
  show ?thesis unfolding e using d by simp
qed

text \<open>
  Claim C4. For every header text, \<open>_clean_column_name\<close> replaces each character outside
  \<open>[A-Za-z0-9_]\<close> by an underscore, collapses consecutive underscores into one, trims the
  underscores at both ends, prefixes \<open>col_\<close> when the result starts with a digit and
  returns \<open>unnamed_column\<close> when the result is empty, in that order; and the name
  \<open>2023 Revenue (USD)\<close> becomes \<open>col_2023_Revenue_USD\<close>.
\<close>

theorem clean_column_name_rules:
  "clean_column_name name =
     spec_fallback (spec_prefix (spec_trim (spec_collapse (spec_replace name))))
   \<and> clean_column_name ''2023 Revenue (USD)'' = ''col_2023_Revenue_USD''"
  using sanitize_refines[of name] sanitize_example by (simp only: spec_sanitize_def simp_thms)

text \<open>
  Claim C9. The sanitizer is idempotent: run on its own output it returns that output.
\<close>

theorem clean_column_name_idempotent:
  "clean_column_name (clean_column_name name) = clean_column_name name"
  by (rule clean_column_name_twice)

section \<open>Properties of the type inferrer\<close>

lemma set_dropna: "set (dropna xs) = {x. Some x \<in> set xs}"
  by (induction xs) (auto simp: dropna_def map_filter_simps split: option.splits)

lemma dropna_map_empty: "dropna (map f vs) = [] \<longleftrightarrow> (\<forall>v\<in>set vs. f v = None)"
  by (induction vs) (auto simp: dropna_def map_filter_simps split: option.splits)

lemma set_numeric: "set (dropna (map f vs)) = {q. \<exists>v\<in>set vs. f v = Some q}"
  by (induction vs) (auto simp: dropna_def map_filter_simps split: option.splits)

text \<open>The integer check or the float check passes exactly when some cell parses.\<close>

lemma integer_or_float:
  "is_integer lib vs \<or> is_float lib vs \<longleftrightarrow> (\<exists>v\<in>set vs. parses_as_number lib v)"
  by (auto simp: is_integer_def is_float_def Let_def dropna_map_empty parses_as_number_def)

lemma bounds_all_within:
  assumes "dropna (map (to_numeric lib) vs) \<noteq> []"
  shows "(lo \<le> Min (set (dropna (map (to_numeric lib) vs))) \<and>
          Max (set (dropna (map (to_numeric lib) vs))) \<le> hi) \<longleftrightarrow> all_within lib vs lo hi"
proof -
  let ?N = "dropna (map (to_numeric lib) vs)"
  have ne: "set ?N \<noteq> {}" using assms by simp
  have "(lo \<le> Min (set ?N) \<and> Max (set ?N) \<le> hi) \<longleftrightarrow> (\<forall>q\<in>set ?N. lo \<le> q \<and> q \<le> hi)"
    using ne by (auto simp: Min_ge_iff Max_le_iff)
  also have "\<dots> \<longleftrightarrow> all_within lib vs lo hi"
    by (auto simp: set_numeric all_within_def list_all_iff split: option.splits)
  finally show ?thesis .
qed

lemma infer_integer_branch:
  assumes "dropna series \<noteq> []" "\<not> is_boolean (dropna series)" "is_integer lib (dropna series)"
  shows "infer_sql_type lib series m = narrowest_integer_type lib (dropna series)"
proof -
  let ?vs = "dropna series"
  have ne: "dropna (map (to_numeric lib) ?vs) \<noteq> []"
    using assms(3) by (auto simp: is_integer_def Let_def split: if_splits)
  show ?thesis
    using assms bounds_all_within[OF ne]
    by (simp add: infer_sql_type_def Let_def narrowest_integer_type_def)
qed

lemma infer_text_branch:
  assumes "dropna series \<noteq> []" "\<not> is_boolean (dropna series)" "\<not> is_integer lib (dropna series)"
    "\<not> is_float lib (dropna series)" "\<not> is_date lib (dropna series)"
    "\<not> is_datetime lib (dropna series)"
  shows "infer_sql_type lib series m =
     (if max_observed_length (dropna series) > m then TEXT
      else VARCHAR (min (scaled_length (max_observed_length (dropna series))) m))"
  using assms by (simp add: infer_sql_type_def Let_def max_observed_length_def)

lemma narrowest_numeric: "is_numeric_type (narrowest_integer_type lib vs)"
  by (simp add: narrowest_integer_type_def is_numeric_type_def)

lemma infer_numeric_iff:
  "is_numeric_type (infer_sql_type lib series m) \<longleftrightarrow>
     dropna series \<noteq> [] \<and> \<not> is_boolean (dropna series) \<and>
     (\<exists>v\<in>set (dropna series). parses_as_number lib v)"
proof (cases "dropna series = [] \<or> is_boolean (dropna series)")
  case True
  then show ?thesis by (auto simp: infer_sql_type_def Let_def is_numeric_type_def)
next
  case False
  then have a: "dropna series \<noteq> []" and b: "\<not> is_boolean (dropna series)" by auto
  show ?thesis
  proof (cases "is_integer lib (dropna series)")
    case True
    with a b integer_or_float[of lib "dropna series"] infer_integer_branch[OF a b True, of m]
    show ?thesis by (simp add: narrowest_numeric)
  next
    case ni: False
    show ?thesis
    proof (cases "is_float lib (dropna series)")
      case True
      with a b ni integer_or_float[of lib "dropna series"]
      show ?thesis by (simp add: infer_sql_type_def Let_def is_numeric_type_def)
    next
      case nf: False
      with a b ni integer_or_float[of lib "dropna series"]
      show ?thesis by (simp add: infer_sql_type_def Let_def is_numeric_type_def)
    qed
  qed
qed

lemma all_integers_is_integer:
  assumes "vs \<noteq> []" "list_all (parses_as_integer lib) vs"
  shows "is_integer lib vs"
proof -
  have "\<forall>v\<in>set vs. \<exists>q. to_numeric lib v = Some q \<and> is_integer_value q"
    using assms(2) by (auto simp: list_all_iff parses_as_integer_def split: option.splits)
  moreover from this assms(1) have "dropna (map (to_numeric lib) vs) \<noteq> []"
    unfolding dropna_map_empty by (cases vs) auto
  ultimately show ?thesis
    by (auto simp: is_integer_def Let_def list_all_iff set_numeric)
qed

lemma infer_all_integers_narrowest:
  assumes "dropna series \<noteq> []" "\<not> is_boolean (dropna series)"
    "list_all (parses_as_integer lib) (dropna series)"
  shows "infer_sql_type lib series m = narrowest_integer_type lib (dropna series)"
  using infer_integer_branch[OF assms(1,2) all_integers_is_integer[OF assms(1,3)]] .

lemma is_date_iff:
  "is_date lib vs \<longleftrightarrow>
     vs \<noteq> [] \<and> list_ex (\<lambda>pattern. re_match pattern (hd vs)) date_patterns \<and>
     list_ex (\<lambda>is_parsed. is_parsed) (to_datetime lib (take 10 vs))"
  by (cases vs) (auto simp: is_date_def Let_def list_ex_iff list_all_iff)

lemma infer_date_branch:
  assumes "dropna series \<noteq> []" "\<not> is_boolean (dropna series)" "\<not> is_integer lib (dropna series)"
    "\<not> is_float lib (dropna series)"
  shows "infer_sql_type lib series m = DATE \<longleftrightarrow>
     list_ex (\<lambda>pattern. re_match pattern (hd (dropna series))) date_patterns \<and>
     list_ex (\<lambda>is_parsed. is_parsed) (to_datetime lib (take 10 (dropna series)))"
proof -
  have "infer_sql_type lib series m = DATE \<longleftrightarrow> is_date lib (dropna series)"
    using assms by (simp add: infer_sql_type_def Let_def)
  with assms(1) show ?thesis by (simp add: is_date_iff)
qed

text \<open>The scaled length is the product with 1.2 rounded down.\<close>

lemma scaled_length_floor: "scaled_length n = \<lfloor>of_int n * (12 / 10) :: rat\<rfloor>"
proof -
  have "(of_int n * (12 / 10) :: rat) = of_int (6 * n) / of_int 5" by simp
  then show ?thesis
    unfolding scaled_length_def by (simp only: floor_divide_of_int_eq)
qed

text \<open>
  Claim C1. The claim says that one cell that does not parse as a number keeps the
  column from every numeric type. The inferrer coerces such cells to NaN and drops
  them before it tests the rest: the column \<open>5, abc\<close> is typed TINYINT.
\<close>

theorem infer_malformed_value_counterexample:
  "\<not> parses_as_number plain_lib ''abc'' \<and>
   infer_sql_type plain_lib [Some ''5'', Some ''abc''] 255 = TINYINT"
  by code_simp

text \<open>
  Claim C1, as the code has it. The inferred type is numeric (TINYINT, SMALLINT, INT,
  BIGINT or DECIMAL) exactly when the column has a non-null cell, its cells are not
  all boolean tokens, and at least one cell parses as a number.
\<close>

theorem infer_numeric_type_iff:
  "is_numeric_type (infer_sql_type lib series max_varchar_length) \<longleftrightarrow>
     dropna series \<noteq> [] \<and> \<not> is_boolean (dropna series) \<and>
     (\<exists>v\<in>set (dropna series). parses_as_number lib v)"
  by (rule infer_numeric_iff)

theorem infer_numeric_type_iff_witness:
  "(\<exists>v\<in>set (dropna [Some ''x'', None, Some ''1.5'']). parses_as_number plain_lib v) \<and>
   is_numeric_type (infer_sql_type plain_lib [Some ''x'', None, Some ''1.5''] 255)"
proof -
  have "dropna [Some ''x'', None, Some ''1.5''] \<noteq> [] \<and>
        \<not> is_boolean (dropna [Some ''x'', None, Some ''1.5'']) \<and>
        (\<exists>v\<in>set (dropna [Some ''x'', None, Some ''1.5'']). parses_as_number plain_lib v)"
    by code_simp
  then show ?thesis
    using infer_numeric_type_iff[of plain_lib "[Some ''x'', None, Some ''1.5'']" 255] by blast
qed

text \<open>
  Claim C2. The claim gives every column of integers an integer type, with INT for the
  range \<open>-(2^31 - 1) .. 2^31 - 1\<close>. The boolean check comes first, so the column
  \<open>1, 0\<close> is typed BOOLEAN; and the INT range of the code starts at \<open>-2^31\<close>, so the
  column \<open>-2147483648\<close> is typed INT where the claim gives BIGINT.
\<close>

theorem infer_all_integers_counterexample:
  "list_all (parses_as_integer plain_lib) [''1'', ''0''] \<and>
   infer_sql_type plain_lib [Some ''1'', Some ''0''] 255 = BOOLEAN \<and>
   parses_as_integer plain_lib ''-2147483648'' \<and>
   infer_sql_type plain_lib [Some ''-2147483648''] 255 = INT_sql"
  by code_simp

text \<open>
  Claim C2, as the code has it. For a column with a non-null cell, whose cells are not
  all boolean tokens and all parse as integers, the inferred type is the narrowest of
  TINYINT (every value in \<open>-128 .. 127\<close>), SMALLINT (\<open>-32768 .. 32767\<close>), INT
  (\<open>-2147483648 .. 2147483647\<close>) and BIGINT.
\<close>

theorem infer_all_integers:
  assumes "dropna series \<noteq> []" and "\<not> is_boolean (dropna series)"
    and "list_all (parses_as_integer lib) (dropna series)"
  shows "infer_sql_type lib series max_varchar_length =
           narrowest_integer_type lib (dropna series)"
  using assms by (rule infer_all_integers_narrowest)

theorem infer_all_integers_witness:
  "dropna [Some ''-5'', None, Some ''200''] \<noteq> [] \<and>
   \<not> is_boolean (dropna [Some ''-5'', None, Some ''200'']) \<and>
   list_all (parses_as_integer plain_lib) (dropna [Some ''-5'', None, Some ''200'']) \<and>
   infer_sql_type plain_lib [Some ''-5'', None, Some ''200''] 255 = SMALLINT"
proof -
  have h1: "dropna [Some ''-5'', None, Some ''200''] \<noteq> []" by code_simp
  have h2: "\<not> is_boolean (dropna [Some ''-5'', None, Some ''200''])" by code_simp
  have h3: "list_all (parses_as_integer plain_lib) (dropna [Some ''-5'', None, Some ''200''])"
    by code_simp
  have n: "narrowest_integer_type plain_lib (dropna [Some ''-5'', None, Some ''200'']) = SMALLINT"
    by code_simp
  from infer_all_integers[OF h1 h2 h3, of 255] n h1 h2 h3 show ?thesis by simp
qed

text \<open>
  Claim C5. The claim rounds the scaled length to the nearest integer. The code
  truncates it with \<open>int\<close>: the column \<open>abc\<close> gets VARCHAR(3), where rounding
  \<open>3 * 1.2\<close> gives 4.
\<close>

theorem infer_varchar_length_counterexample:
  "infer_sql_type plain_lib [Some ''abc''] 255 = VARCHAR 3 \<and>
   spec_varchar_length (max_observed_length [''abc'']) 255 = 4"
  by code_simp

text \<open>
  Claim C5, as the code has it. For a column with a non-null cell that fails the
  boolean, integer, float, date and datetime checks, the inferred type is TEXT when
  the longest cell exceeds the bound, and otherwise VARCHAR of the smaller of the bound
  and the longest length times 1.2 rounded down.
\<close>

theorem infer_varchar_length:
  assumes "dropna series \<noteq> []" and "\<not> is_boolean (dropna series)"
    and "\<not> is_integer lib (dropna series)" and "\<not> is_float lib (dropna series)"
    and "\<not> is_date lib (dropna series)" and "\<not> is_datetime lib (dropna series)"
  shows "infer_sql_type lib series max_varchar_length =
     (if max_observed_length (dropna series) > max_varchar_length then TEXT
      else VARCHAR (min \<lfloor>of_int (max_observed_length (dropna series)) * (12 / 10) :: rat\<rfloor>
                        max_varchar_length))"
  using infer_text_branch[OF assms] by (simp only: scaled_length_floor)

theorem infer_varchar_length_witness:
  "infer_sql_type plain_lib [Some ''hello'', Some ''hi''] 255 = VARCHAR 6 \<and>
   infer_sql_type plain_lib [Some ''hello'', Some ''hi''] 4 = TEXT"
proof -
  have h: "dropna [Some ''hello'', Some ''hi''] \<noteq> []"
    "\<not> is_boolean (dropna [Some ''hello'', Some ''hi''])"
    "\<not> is_integer plain_lib (dropna [Some ''hello'', Some ''hi''])"
    "\<not> is_float plain_lib (dropna [Some ''hello'', Some ''hi''])"
    "\<not> is_date plain_lib (dropna [Some ''hello'', Some ''hi''])"
    "\<not> is_datetime plain_lib (dropna [Some ''hello'', Some ''hi''])"
    by code_simp+
  have m: "max_observed_length (dropna [Some ''hello'', Some ''hi'']) = 5" by code_simp
  have f: "\<lfloor>of_int 5 * (12 / 10) :: rat\<rfloor> = 6" by code_simp
  from infer_varchar_length[OF h, of 255] infer_varchar_length[OF h, of 4] m f
  show ?thesis by simp
qed

text \<open>
  Claim C6. The claim asks that every cell of the column parses as a date. The code
  parses the first ten cells and asks only that not all of them fail: the column
  \<open>2023-01-15, hello\<close> is typed DATE although \<open>hello\<close> is no date.
\<close>

theorem infer_date_counterexample:
  "to_datetime plain_lib [''2023-01-15'', ''hello''] = [True, False] \<and>
   infer_sql_type plain_lib [Some ''2023-01-15'', Some ''hello''] 255 = DATE"
  by code_simp

text \<open>
  Claim C6, as the code has it. For a column with a non-null cell that fails the
  boolean, integer and float checks, the inferred type is DATE exactly when the first
  non-null cell begins with one of the four date patterns and, of the first ten
  non-null cells, at least one parses as a date.
\<close>

theorem infer_date_iff:
  assumes "dropna series \<noteq> []" and "\<not> is_boolean (dropna series)"
    and "\<not> is_integer lib (dropna series)" and "\<not> is_float lib (dropna series)"
  shows "infer_sql_type lib series max_varchar_length = DATE \<longleftrightarrow>
     list_ex (\<lambda>pattern. re_match pattern (hd (dropna series))) date_patterns \<and>
     list_ex (\<lambda>is_parsed. is_parsed) (to_datetime lib (take 10 (dropna series)))"
  using assms by (rule infer_date_branch)

theorem infer_date_iff_witness:
  "list_ex (\<lambda>pattern. re_match pattern (hd (dropna [Some ''15-01-2023'', Some ''2023-01-16''])))
     date_patterns \<and>
   list_ex (\<lambda>is_parsed. is_parsed)
     (to_datetime plain_lib (take 10 (dropna [Some ''15-01-2023'', Some ''2023-01-16'']))) \<and>
   infer_sql_type plain_lib [Some ''15-01-2023'', Some ''2023-01-16''] 255 = DATE"
proof -
  have h: "dropna [Some ''15-01-2023'', Some ''2023-01-16''] \<noteq> []"
    "\<not> is_boolean (dropna [Some ''15-01-2023'', Some ''2023-01-16''])"
    "\<not> is_integer plain_lib (dropna [Some ''15-01-2023'', Some ''2023-01-16''])"
    "\<not> is_float plain_lib (dropna [Some ''15-01-2023'', Some ''2023-01-16''])"
    by code_simp+
  have r: "list_ex (\<lambda>pattern. re_match pattern (hd (dropna [Some ''15-01-2023'', Some ''2023-01-16''])))
     date_patterns \<and>
   list_ex (\<lambda>is_parsed. is_parsed)
     (to_datetime plain_lib (take 10 (dropna [Some ''15-01-2023'', Some ''2023-01-16''])))"
    by code_simp
  with infer_date_iff[OF h, of 255] show ?thesis by blast
qed

section \<open>Properties of the minimal implementation\<close>

lemma new_data_loop_filter:
  "new_data_loop existing_data rows acc =
     acc @ filter (\<lambda>row. \<not> row_in row existing_data) rows"
  by (induction rows arbitrary: acc) simp_all

lemma insert_loop_map: "insert_loop rows executed = executed @ map Insert rows"
  by (induction rows arbitrary: executed) simp_all

text \<open>Python's \<open>==\<close> holds of two cells exactly when they have the same value.\<close>

lemma py_eq_value_of: "py_eq a b \<longleftrightarrow> value_of a = value_of b"
  by (cases a; cases b) simp_all

text \<open>Two rows are equal lists exactly when their tuples of values are the same.\<close>

lemma row_eq_value_tuple: "row_eq row other \<longleftrightarrow> value_tuple row = value_tuple other"
proof (induction row arbitrary: other)
  case Nil
  then show ?case by (cases other) (simp_all add: row_eq_def value_tuple_def)
next
  case (Cons a row)
  then show ?case
    by (cases other) (simp_all add: row_eq_def value_tuple_def py_eq_value_of)
qed

lemma row_in_value_tuple:
  "row_in row existing_data \<longleftrightarrow> value_tuple row \<in> set (map value_tuple existing_data)"
  by (auto simp: row_in_def list_ex_iff row_eq_value_tuple)

lemma merge_rows_spec:
  "merge_rows existing_data csv_data_list =
     (if spec_new_rows existing_data (tl csv_data_list) = [] then []
      else map Insert (spec_new_rows existing_data (tl csv_data_list)) @ [Commit])"
  by (simp add: merge_rows_def Let_def new_data_loop_filter insert_loop_map spec_new_rows_def
      row_in_value_tuple drop_Suc)

lemma merge_rows_example:
  "merge_rows [[IntV 1, StrV ''a''], [IntV 2, StrV ''b'']]
     [[StrV ''id'', StrV ''name''], [IntV 2, StrV ''b''], [IntV 3, StrV ''c'']]
   = [Insert [IntV 3, StrV ''c''], Commit]"
  by (simp add: merge_rows_def row_in_def row_eq_def)

text \<open>
  Claim C3. The statements of the merge insert exactly the incoming data rows (the
  rows after the header) whose tuple of values does not occur among the tuples of
  the snapshot of the table, in their order, and then commit; nothing is executed
  when there is no such row. The comparison is of whole tuples: the same number of
  values and the same value at every position. With the snapshot \<open>(1, a), (2, b)\<close>
  and the incoming rows \<open>(2, b), (3, c)\<close> only \<open>(3, c)\<close> is inserted.
\<close>

theorem merge_inserts_new_rows:
  "merge_rows existing_data csv_data_list =
     (if spec_new_rows existing_data (tl csv_data_list) = [] then []
      else map Insert (spec_new_rows existing_data (tl csv_data_list)) @ [Commit]) \<and>
   merge_rows [[IntV 1, StrV ''a''], [IntV 2, StrV ''b'']]
     [[StrV ''id'', StrV ''name''], [IntV 2, StrV ''b''], [IntV 3, StrV ''c'']]
   = [Insert [IntV 3, StrV ''c''], Commit]"
  using merge_rows_spec[of existing_data csv_data_list] merge_rows_example by simp

text \<open>
  A row that agrees with a row of the snapshot on its first value only is inserted:
  the comparison is not by key.
\<close>

lemma merge_rows_not_key_based:
  "merge_rows [[IntV 2, StrV ''b'']] [[StrV ''id'', StrV ''name''], [IntV 2, StrV ''z'']]
   = [Insert [IntV 2, StrV ''z''], Commit]"
  by (simp add: merge_rows_def row_in_def row_eq_def)

lemma isdigit_decimal: "s \<noteq> [] \<Longrightarrow> list_all is_decimal_char s \<Longrightarrow> isdigit s"
  by (auto simp: isdigit_def isdigit_char_def is_decimal_char_def Let_def list_all_iff)

text \<open>
  A field of decimal digits within the limit becomes its number; a field that fails
  \<open>isdigit\<close> stays text.
\<close>

lemma format_value_decimal:
  "s \<noteq> [] \<Longrightarrow> list_all is_decimal_char s \<Longrightarrow> int (length s) \<le> int_max_str_digits \<Longrightarrow>
   format_value s = Inr (IntV (digits_value s))"
  by (simp add: format_value_def python_int_def isdigit_decimal)

lemma format_value_text: "\<not> isdigit s \<Longrightarrow> format_value s = Inr (StrV s)"
  by (simp add: format_value_def)

lemma format_value_superscript:
  "isdigit s \<Longrightarrow> \<not> list_all is_decimal_char s \<Longrightarrow> format_value s = Inl ValueError"
  by (simp add: format_value_def python_int_def)

text \<open>
  Claim C10. A field made of the one character U+00B2 (superscript two) passes
  \<open>isdigit\<close>, and \<open>int\<close> raises \<open>ValueError\<close> on it: the field is neither converted
  nor kept as text. The fields \<open>42\<close>, \<open>-5\<close> and \<open>1.5\<close> are treated as the claim says,
  and a row with the text \<open>-5\<close> does not equal the database row with the number
  \<open>-5\<close>, so the merge inserts it again.
\<close>

theorem format_value_superscript_digit:
  "isdigit [CHR 0xB2] \<and> format_value [CHR 0xB2] = Inl ValueError \<and>
   format_value ''42'' = Inr (IntV 42) \<and>
   format_value ''-5'' = Inr (StrV ''-5'') \<and>
   format_value ''1.5'' = Inr (StrV ''1.5'') \<and>
   merge_rows [[IntV (- 5)]] [[StrV ''n''], [StrV ''-5'']] = [Insert [StrV ''-5''], Commit]"
  by code_simp

lemma data_types_loop_append:
  "data_types_loop row acc = acc @ List.map_filter data_type_of row"
  by (induction row arbitrary: acc) (simp_all add: map_filter_simps split: option.splits)

text \<open>The types are as many as the fields when every field is given a type.\<close>

lemma length_data_types:
  "length (data_types row) = length (filter (\<lambda>i. data_type_of i \<noteq> None) row)"
  by (simp add: data_types_def data_types_loop_append map_filter_def)

text \<open>
  Claim C7. For the header \<open>id, when\<close> and the second row \<open>1, 2023-01-15\<close> the loop
  of \<open>create_table\<close> appends one type for two header fields: the date reaches the
  test \<open>elif i.isnumeric:\<close>, which is true of every text, and with no dot in it
  nothing is appended. The subscript \<open>data_types[1]\<close> then raises \<open>IndexError\<close>.
\<close>

theorem create_table_types_short:
  "data_types [''1'', ''2023-01-15''] = [''int(11)''] \<and>
   create_table_columns [''id'', ''when''] [''1'', ''2023-01-15''] = Inl IndexError"
  by code_simp















end
